theory Spec2Isabelle
  imports Main
begin

section \<open>Values, errors and the shared world\<close>

text \<open>
  The storage classes of the repository work on three pieces of shared state: the Django
  cache (the shared lock table), the local file system reached through \<^verbatim>\<open>os\<close> and
  \<^verbatim>\<open>open\<close>, and the GlusterFS volume reached through \<^verbatim>\<open>self.__volume\<close>. The model
  passes them around explicitly in one record, together with a trace of the named
  mutexes taken and released and of the backend calls made.

  File contents (Python \<^verbatim>\<open>bytes\<close> and \<^verbatim>\<open>str\<close>) are character lists. Time is not
  modelled: the cache holds the entries that have not expired, each with the timeout it
  was stored with (\<open>None\<close> is the cache's default timeout).
\<close>

type_synonym fpath = string
type_synonym bytes = string

datatype node = File bytes | Dir

datatype exn =
    TypeError | AttributeError | FileExistsError | FileNotFoundError
  | NotADirectoryError | IsADirectoryError | IOError | OSError
  | SuspiciousFileOperation

datatype bop =
    Exists | IsDir | Makedirs | OpenFlags | FOpen | Write | Chmod | Remove | Mknod
  | Copy | GetSize | Seek | Read | Rename | MoveSafe

text \<open>
  A trace event: a named mutex taken or released, or a backend call with the path (or,
  for the calls Django makes by name, the name) it was made with.
\<close>

datatype event = Acquire string | Release string | Backend bop string

text \<open>Return values of the methods whose result shape differs between the two backends.\<close>

datatype pyval = PNone | PBool bool | PStr string | PTuple "pyval list"

record world =
  cache :: "string \<rightharpoonup> (string \<times> nat option)"
  osfs :: "fpath \<rightharpoonup> node"
  volume :: "fpath \<rightharpoonup> node"
  trace :: "event list"

text \<open>\<^verbatim>\<open>cache.get\<close>, \<^verbatim>\<open>cache.set\<close>, \<^verbatim>\<open>cache.delete\<close>.\<close>

definition cache_get :: "world \<Rightarrow> string \<Rightarrow> string option" where
  "cache_get s k = map_option fst (cache s k)"

definition cache_set :: "string \<Rightarrow> string \<Rightarrow> nat option \<Rightarrow> world \<Rightarrow> world" where
  "cache_set k v ttl s = s\<lparr>cache := (cache s)(k \<mapsto> (v, ttl))\<rparr>"

definition cache_delete :: "string \<Rightarrow> world \<Rightarrow> world" where
  "cache_delete k s = s\<lparr>cache := (cache s)(k := None)\<rparr>"

text \<open>
  Python truth value of what \<^verbatim>\<open>cache.get\<close> returns: \<^verbatim>\<open>None\<close> and the empty string
  are false, every other string is true.
\<close>

definition truthy :: "string option \<Rightarrow> bool" where
  "truthy v = (case v of None \<Rightarrow> False | Some x \<Rightarrow> x \<noteq> [])"

text \<open>
  \<^verbatim>\<open>with caches['default'].lock(key):\<close> is a scoped mutex: it blocks until the key is free
  and releases it when the block is left, also by an exception. The model describes one
  call running alone, so the mutex is always granted; taking and releasing are recorded
  in the trace.
\<close>

definition acquire :: "string \<Rightarrow> world \<Rightarrow> world" where
  "acquire k s = s\<lparr>trace := trace s @ [Acquire k]\<rparr>"

definition release :: "string \<Rightarrow> world \<Rightarrow> world" where
  "release k s = s\<lparr>trace := trace s @ [Release k]\<rparr>"

definition io :: "bop \<Rightarrow> fpath \<Rightarrow> world \<Rightarrow> world" where
  "io b p s = s\<lparr>trace := trace s @ [Backend b p]\<rparr>"

text \<open>\<^verbatim>\<open>'{}_{}'.format(full_path, 'reader')\<close> and \<^verbatim>\<open>'{}_{}'.format(full_path, 'writer')\<close>.\<close>

definition reader_key :: "fpath \<Rightarrow> string" where
  "reader_key full_path = full_path @ ''_reader''"

definition writer_key :: "fpath \<Rightarrow> string" where
  "writer_key full_path = full_path @ ''_writer''"


section \<open>ResumableWebDav: the per-path lock manager (webdav.py)\<close>

text \<open>
  \<^verbatim>\<open>settings.MAX_FILE_LOCK_SECONDS\<close> is not declared in the repository; it is the
  parameter \<open>ttl\<close>.
\<close>

definition is_locked :: "world \<Rightarrow> fpath \<Rightarrow> bool" where
  "is_locked s fpath = (cache_get s fpath \<noteq> None)"

definition lock :: "nat \<Rightarrow> fpath \<Rightarrow> string \<Rightarrow> world \<Rightarrow> (bool \<times> string option) \<times> world" where
  "lock ttl fpath user s =
     (if truthy (cache_get s fpath)
      then ((True, Some user), cache_set fpath user (Some ttl) s)
      else ((False, cache_get s fpath), s))"

definition unlock :: "fpath \<Rightarrow> string \<Rightarrow> world \<Rightarrow> string option \<times> world" where
  "unlock fpath user s =
     (let check_user = cache_get s fpath
      in if truthy check_user \<and> check_user = Some user
         then (check_user, cache_delete fpath s)
         else (check_user, s))"



section \<open>Paths, file trees and backend calls\<close>

text \<open>\<^verbatim>\<open>os.path.dirname\<close> and \<^verbatim>\<open>os.path.basename\<close> of \<^verbatim>\<open>posixpath\<close>.\<close>

definition dirname :: "fpath \<Rightarrow> fpath" where
  "dirname p =
     (let head = rev (dropWhile (\<lambda>c. c \<noteq> CHR ''/'') (rev p))
      in if head \<noteq> [] \<and> filter (\<lambda>c. c \<noteq> CHR ''/'') head \<noteq> []
         then rev (dropWhile (\<lambda>c. c = CHR ''/'') (rev head))
         else head)"

definition basename :: "fpath \<Rightarrow> string" where
  "basename p = rev (takeWhile (\<lambda>c. c \<noteq> CHR ''/'') (rev p))"

text \<open>
  A file tree maps a path to a regular file with its bytes or to a directory. The calls
  below are the POSIX behaviour of the backend calls the storage classes make: creating
  an entry needs its parent directory, \<^verbatim>\<open>mknod\<close> refuses an existing path, opening
  for append creates a missing file. The driver of the volume (\<^verbatim>\<open>gfapi\<close>) is not part
  of the repository; its calls \<^verbatim>\<open>exists\<close>, \<^verbatim>\<open>fopen\<close>, \<^verbatim>\<open>getsize\<close> and \<^verbatim>\<open>copy2\<close>
  behave on the volume as the calls of the same name do on a local file tree. Two of
  its calls are made with fewer arguments than the driver's functions take, and raise
  before they reach the volume: \<^verbatim>\<open>fd.lseek(offset)\<close> and
  \<^verbatim>\<open>self.__volume.mknod(full_path)\<close>, modelled below.
\<close>

definition parent_error :: "(fpath \<rightharpoonup> node) \<Rightarrow> fpath \<Rightarrow> exn option" where
  "parent_error fs p =
     (case fs (dirname p) of
        None \<Rightarrow> Some FileNotFoundError
      | Some (File _) \<Rightarrow> Some NotADirectoryError
      | Some Dir \<Rightarrow> None)"

definition fs_mknod :: "fpath \<Rightarrow> (fpath \<rightharpoonup> node) \<Rightarrow> exn + (fpath \<rightharpoonup> node)" where
  "fs_mknod p fs =
     (if fs p \<noteq> None then Inl FileExistsError
      else case parent_error fs p of
             Some e \<Rightarrow> Inl e
           | None \<Rightarrow> Inr (fs(p \<mapsto> File [])))"

definition fs_append :: "fpath \<Rightarrow> bytes \<Rightarrow> (fpath \<rightharpoonup> node) \<Rightarrow> exn + (fpath \<rightharpoonup> node)" where
  "fs_append p data fs =
     (case fs p of
        Some (File old) \<Rightarrow> Inr (fs(p \<mapsto> File (old @ data)))
      | Some Dir \<Rightarrow> Inl IsADirectoryError
      | None \<Rightarrow>
          (case parent_error fs p of
             Some e \<Rightarrow> Inl e
           | None \<Rightarrow> Inr (fs(p \<mapsto> File data))))"

text \<open>\<^verbatim>\<open>open(p, 'wb')\<close> followed by one \<^verbatim>\<open>write\<close>: the file is truncated or created.\<close>

definition fs_write :: "fpath \<Rightarrow> bytes \<Rightarrow> (fpath \<rightharpoonup> node) \<Rightarrow> exn + (fpath \<rightharpoonup> node)" where
  "fs_write p data fs =
     (case fs p of
        Some Dir \<Rightarrow> Inl IsADirectoryError
      | Some (File old) \<Rightarrow> Inr (fs(p \<mapsto> File data))
      | None \<Rightarrow>
          (case parent_error fs p of
             Some e \<Rightarrow> Inl e
           | None \<Rightarrow> Inr (fs(p \<mapsto> File data))))"

text \<open>
  \<^verbatim>\<open>copy2(src, dst)\<close>: the bytes of the file \<open>src\<close> are written to \<open>dst\<close>, or into
  \<open>dst\<close> under the base name of \<open>src\<close> when \<open>dst\<close> is a directory. The source stays.
\<close>

definition fs_copy2 :: "fpath \<Rightarrow> fpath \<Rightarrow> (fpath \<rightharpoonup> node) \<Rightarrow> exn + (fpath \<rightharpoonup> node)" where
  "fs_copy2 src dst fs =
     (case fs src of
        None \<Rightarrow> Inl FileNotFoundError
      | Some Dir \<Rightarrow> Inl IsADirectoryError
      | Some (File data) \<Rightarrow>
          (case fs dst of
             Some Dir \<Rightarrow> fs_write (dst @ ''/'' @ basename src) data fs
           | _ \<Rightarrow> fs_write dst data fs))"

text \<open>Opening a stream for reading gives the bytes of the file.\<close>

definition fs_fopen_r :: "fpath \<Rightarrow> (fpath \<rightharpoonup> node) \<Rightarrow> exn + bytes" where
  "fs_fopen_r p fs =
     (case fs p of
        None \<Rightarrow> Inl FileNotFoundError
      | Some Dir \<Rightarrow> Inl IsADirectoryError
      | Some (File data) \<Rightarrow> Inr data)"

text \<open>
  \<^verbatim>\<open>getsize\<close>: the length of a file; for a directory the size \<open>dsize\<close> that the backend
  reports for it.
\<close>

definition fs_getsize :: "int \<Rightarrow> fpath \<Rightarrow> (fpath \<rightharpoonup> node) \<Rightarrow> exn + int" where
  "fs_getsize dsize p fs =
     (case fs p of
        None \<Rightarrow> Inl FileNotFoundError
      | Some Dir \<Rightarrow> Inr dsize
      | Some (File data) \<Rightarrow> Inr (int (length data)))"

text \<open>
  \<^verbatim>\<open>fd.lseek(offset)\<close>: the driver's \<^verbatim>\<open>File.lseek(pos, how)\<close> takes the reference
  point \<open>how\<close> as a second argument without a default. Called with the offset alone
  it raises \<^verbatim>\<open>TypeError\<close>; the position is not set. \<^verbatim>\<open>fd.read(l)\<close> returns at
  most \<open>l\<close> bytes from the position, and everything that is left for a negative \<open>l\<close>.
\<close>

definition file_lseek_without_how :: "int \<Rightarrow> exn + nat" where
  "file_lseek_without_how offset = Inl TypeError"

definition stream_read :: "bytes \<Rightarrow> nat \<Rightarrow> int \<Rightarrow> bytes" where
  "stream_read data pos l = (if l < 0 then drop pos data else take (nat l) (drop pos data))"

text \<open>The same calls on the world: \<open>os_\<close> on the local file system, \<open>vol_\<close> on the volume.\<close>

definition os_mknod :: "fpath \<Rightarrow> world \<Rightarrow> (exn + unit) \<times> world" where
  "os_mknod p s =
     (case fs_mknod p (osfs s) of
        Inl e \<Rightarrow> (Inl e, io Mknod p s)
      | Inr fs' \<Rightarrow> (Inr (), io Mknod p (s\<lparr>osfs := fs'\<rparr>)))"

text \<open>
  \<^verbatim>\<open>self.__volume.mknod(full_path)\<close>: the driver's \<^verbatim>\<open>Volume.mknod(path, mode, dev)\<close>
  takes the mode and the device without defaults. Called with the path alone it
  raises \<^verbatim>\<open>TypeError\<close>; the volume is not reached and no node is created.
\<close>

definition vol_mknod :: "fpath \<Rightarrow> world \<Rightarrow> (exn + unit) \<times> world" where
  "vol_mknod p s = (Inl TypeError, s)"

definition os_append :: "fpath \<Rightarrow> bytes \<Rightarrow> world \<Rightarrow> (exn + unit) \<times> world" where
  "os_append p data s =
     (case fs_append p data (osfs s) of
        Inl e \<Rightarrow> (Inl e, io FOpen p s)
      | Inr fs' \<Rightarrow> (Inr (), io Write p (io FOpen p (s\<lparr>osfs := fs'\<rparr>))))"

definition vol_append :: "fpath \<Rightarrow> bytes \<Rightarrow> world \<Rightarrow> (exn + unit) \<times> world" where
  "vol_append p data s =
     (case fs_append p data (volume s) of
        Inl e \<Rightarrow> (Inl e, io FOpen p s)
      | Inr fs' \<Rightarrow> (Inr (), io Write p (io FOpen p (s\<lparr>volume := fs'\<rparr>))))"

definition os_write :: "fpath \<Rightarrow> bytes \<Rightarrow> world \<Rightarrow> (exn + unit) \<times> world" where
  "os_write p data s =
     (case fs_write p data (osfs s) of
        Inl e \<Rightarrow> (Inl e, io FOpen p s)
      | Inr fs' \<Rightarrow> (Inr (), io Write p (io FOpen p (s\<lparr>osfs := fs'\<rparr>))))"

definition vol_copy2 :: "fpath \<Rightarrow> fpath \<Rightarrow> world \<Rightarrow> (exn + unit) \<times> world" where
  "vol_copy2 src dst s =
     (case fs_copy2 src dst (volume s) of
        Inl e \<Rightarrow> (Inl e, io Copy src s)
      | Inr fs' \<Rightarrow> (Inr (), io Copy src (s\<lparr>volume := fs'\<rparr>)))"

definition vol_fopen_r :: "fpath \<Rightarrow> world \<Rightarrow> (exn + bytes) \<times> world" where
  "vol_fopen_r p s = (fs_fopen_r p (volume s), io FOpen p s)"

definition vol_getsize :: "int \<Rightarrow> fpath \<Rightarrow> world \<Rightarrow> (exn + int) \<times> world" where
  "vol_getsize dsize p s = (fs_getsize dsize p (volume s), io GetSize p s)"

definition os_getsize :: "int \<Rightarrow> fpath \<Rightarrow> world \<Rightarrow> (exn + int) \<times> world" where
  "os_getsize dsize p s = (fs_getsize dsize p (osfs s), io GetSize p s)"

text \<open>
  \<^verbatim>\<open>os.open(full_path, 'r')\<close>: the second argument of \<^verbatim>\<open>os.open\<close> is the integer of
  the open flags. Called with the string \<^verbatim>\<open>'r'\<close> it raises \<^verbatim>\<open>TypeError\<close> and opens
  nothing.
\<close>

definition os_open_str_flags :: "fpath \<Rightarrow> string \<Rightarrow> exn" where
  "os_open_str_flags p flags = TypeError"

text \<open>The \<^verbatim>\<open>with\<close> statement on a named mutex, and \<^verbatim>\<open>try: ... finally: ...\<close>.\<close>

definition with_lock :: "string \<Rightarrow> (world \<Rightarrow> 'a \<times> world) \<Rightarrow> world \<Rightarrow> 'a \<times> world" where
  "with_lock k body s = (let (r, s') = body (acquire k s) in (r, release k s'))"

definition try_finally :: "(world \<Rightarrow> 'a \<times> world) \<Rightarrow> (world \<Rightarrow> world) \<Rightarrow> world \<Rightarrow> 'a \<times> world" where
  "try_finally body fin s = (let (r, s') = body s in (r, fin s'))"


section \<open>Content objects and configuration\<close>

text \<open>
  What a caller can pass as \<^verbatim>\<open>content\<close>:
  \<^item> a Django file object (\<^verbatim>\<open>File\<close>, \<^verbatim>\<open>ContentFile\<close>, an uploaded file): it has the
    attribute \<^verbatim>\<open>chunks\<close>, a \<^verbatim>\<open>name\<close> that may be \<^verbatim>\<open>None\<close>, the chunks it yields, and,
    for an upload kept in a temporary file, \<^verbatim>\<open>temporary_file_path\<close>;
  \<^item> a \<^verbatim>\<open>bytes\<close> object: no \<^verbatim>\<open>chunks\<close>, no \<^verbatim>\<open>name\<close>;
  \<^item> any other object, such as an open Python file: no \<^verbatim>\<open>chunks\<close>, and a \<^verbatim>\<open>name\<close>
    only if the option holds one.
\<close>

datatype content =
    DjangoFile "string option" "bytes list" "fpath option"
  | RawBytes bytes
  | FileLike "string option" bytes

fun has_chunks :: "content \<Rightarrow> bool" where
  "has_chunks (DjangoFile n cs t) = True"
| "has_chunks (RawBytes d) = False"
| "has_chunks (FileLike n d) = False"

text \<open>\<^verbatim>\<open>content.name\<close>: \<^verbatim>\<open>AttributeError\<close> where the object has no such attribute.\<close>

fun content_name :: "content \<Rightarrow> exn + string option" where
  "content_name (DjangoFile n cs t) = Inr n"
| "content_name (RawBytes d) = Inl AttributeError"
| "content_name (FileLike None d) = Inl AttributeError"
| "content_name (FileLike (Some n) d) = Inr (Some n)"

text \<open>What \<^verbatim>\<open>append\<close> writes: a \<^verbatim>\<open>str\<close> (text mode) or anything else (binary mode).\<close>

datatype payload = Text string | Binary bytes

fun payload_bytes :: "payload \<Rightarrow> bytes" where
  "payload_bytes (Text t) = t"
| "payload_bytes (Binary b) = b"

text \<open>
  What the storage classes take from Django and from the settings, none of it declared in
  the repository, is a parameter of the model:
  \<^item> \<open>path\<close>: \<^verbatim>\<open>self.path(name)\<close>, the join of the name with the base location, which raises
    for a name that leaves the base location; \<open>path_none\<close> is \<^verbatim>\<open>self.path(None)\<close>;
  \<^item> \<open>max_file_lock_seconds\<close>: \<^verbatim>\<open>settings.MAX_FILE_LOCK_SECONDS\<close>;
  \<^item> \<open>file_permissions_mode\<close>: the configured permission bits of a saved file;
  \<^item> \<open>get_available_name\<close>: Django's \<^verbatim>\<open>Storage.get_available_name(name, max_length)\<close>,
    given the storage's \<^verbatim>\<open>exists\<close> as its first argument;
  \<^item> \<open>fs_save\<close>: Django's \<^verbatim>\<open>FileSystemStorage._save(name, content)\<close> on the local file
    tree;
  \<^item> \<open>dir_size\<close>: the size the backend reports for a directory.
\<close>

record config =
  path :: "string \<Rightarrow> exn + fpath"
  path_none :: "exn + fpath"
  max_file_lock_seconds :: nat
  file_permissions_mode :: "nat option"
  get_available_name :: "(string \<Rightarrow> exn + bool) \<Rightarrow> string \<Rightarrow> nat option \<Rightarrow> exn + string"
  fs_save :: "string \<Rightarrow> content \<Rightarrow> (fpath \<rightharpoonup> node) \<Rightarrow> (exn + string) \<times> (fpath \<rightharpoonup> node)"
  dir_size :: int


section \<open>LocalFileStorage (localfs_storage.py)\<close>

text \<open>\<^verbatim>\<open>FileSystemStorage.exists(name)\<close>: \<^verbatim>\<open>os.path.exists(self.path(name))\<close>.\<close>

definition local_exists :: "config \<Rightarrow> world \<Rightarrow> string \<Rightarrow> exn + bool" where
  "local_exists cfg s name =
     (case path cfg name of Inl e \<Rightarrow> Inl e | Inr p \<Rightarrow> Inr (osfs s p \<noteq> None))"

text \<open>
  \<^verbatim>\<open>save\<close>. The name that is resolved is the argument, or \<^verbatim>\<open>content.name\<close> when the
  argument is \<^verbatim>\<open>None\<close>. Everything else happens only for content without the attribute
  \<^verbatim>\<open>chunks\<close>; \<open>rval\<close> is assigned in the branch that calls \<^verbatim>\<open>_save\<close> only. Under the
  mutexes the name is a string for every content that gets there (content without
  \<^verbatim>\<open>chunks\<close> has a string as name or none at all); for completeness, no name makes
  \<^verbatim>\<open>get_available_name\<close> raise \<^verbatim>\<open>TypeError\<close>. The probe of the backend by
  \<^verbatim>\<open>get_available_name\<close> and the write by \<^verbatim>\<open>_save\<close> are recorded with the name they
  are called with.
\<close>

definition save_name :: "string option \<Rightarrow> content \<Rightarrow> exn + string option" where
  "save_name name content = (case name of None \<Rightarrow> content_name content | Some n \<Rightarrow> Inr (Some n))"

definition path_opt :: "config \<Rightarrow> string option \<Rightarrow> exn + fpath" where
  "path_opt cfg name = (case name of None \<Rightarrow> path_none cfg | Some n \<Rightarrow> path cfg n)"

definition local_save_locked ::
  "config \<Rightarrow> string option \<Rightarrow> content \<Rightarrow> nat option \<Rightarrow> world \<Rightarrow> (exn + pyval) \<times> world" where
  "local_save_locked cfg name content max_length s =
     (case name of
        None \<Rightarrow> (Inl TypeError, s)
      | Some n \<Rightarrow>
          (case get_available_name cfg (local_exists cfg s) n max_length of
             Inl e \<Rightarrow> (Inl e, io Exists n s)
           | Inr name' \<Rightarrow>
               (case content of
                  RawBytes data \<Rightarrow>
                    (case path cfg name' of
                       Inl e \<Rightarrow> (Inl e, io Exists n s)
                     | Inr p \<Rightarrow>
                         (case os_write p data (io Exists n s) of
                            (Inl e, s') \<Rightarrow> (Inl e, s')
                          | (Inr u, s') \<Rightarrow> (Inr PNone, s')))
                | _ \<Rightarrow>
                    (case fs_save cfg name' content (osfs s) of
                       (Inl e, fs') \<Rightarrow> (Inl e, io Write name' (io Exists n (s\<lparr>osfs := fs'\<rparr>)))
                     | (Inr stored, fs') \<Rightarrow>
                         (Inr (PStr stored), io Write name' (io Exists n (s\<lparr>osfs := fs'\<rparr>)))))))"

definition local_save ::
  "config \<Rightarrow> string option \<Rightarrow> content \<Rightarrow> nat option \<Rightarrow> world \<Rightarrow> (exn + pyval) \<times> world" where
  "local_save cfg name content max_length s =
     (case save_name name content of
        Inl e \<Rightarrow> (Inl e, s)
      | Inr name1 \<Rightarrow>
          (case path_opt cfg name1 of
             Inl e \<Rightarrow> (Inl e, s)
           | Inr full_path \<Rightarrow>
               if \<not> has_chunks content
               then with_lock (reader_key full_path)
                      (with_lock (writer_key full_path)
                         (local_save_locked cfg name1 content max_length)) s
               else (Inr PNone, s)))"

text \<open>
  \<^verbatim>\<open>append\<close>. \<^verbatim>\<open>cache.get(full_path) is not user\<close> compares object identity: it is false
  only if the cache returns the very object that was passed as \<open>user\<close>, which needs the
  two values to be equal; \<open>same_object\<close> says whether equal values are then the same
  object.
\<close>

definition is_not_object :: "bool \<Rightarrow> string option \<Rightarrow> string \<Rightarrow> bool" where
  "is_not_object same_object v user = (\<not> (v = Some user \<and> same_object))"

definition local_append ::
  "config \<Rightarrow> bool \<Rightarrow> string \<Rightarrow> payload \<Rightarrow> string \<Rightarrow> world \<Rightarrow> (exn + bool) \<times> world" where
  "local_append cfg same_object name content user s =
     (case path cfg name of
        Inl e \<Rightarrow> (Inl e, s)
      | Inr full_path \<Rightarrow>
          if is_locked s full_path = False
             \<or> is_not_object same_object (cache_get s full_path) user
          then with_lock (reader_key full_path)
                 (with_lock (writer_key full_path)
                    (\<lambda>s1. try_finally
                       (\<lambda>s2. case os_append full_path (payload_bytes content) s2 of
                                (Inl e, s3) \<Rightarrow> (Inl e, s3)
                              | (Inr u, s3) \<Rightarrow> (Inr True, s3))
                       (\<lambda>s4. snd (unlock full_path user s4))
                       (snd (lock (max_file_lock_seconds cfg) full_path user s1)))) s
          else (Inr False, s))"

text \<open>
  \<^verbatim>\<open>mkcollection\<close>: only the writer-keyed mutex is taken; \<^verbatim>\<open>os.mknod\<close> is not inside
  an \<^verbatim>\<open>except\<close>, so its error leaves the method after the \<^verbatim>\<open>finally\<close>.
\<close>

definition local_mkcollection ::
  "config \<Rightarrow> string \<Rightarrow> string \<Rightarrow> world \<Rightarrow> (exn + pyval) \<times> world" where
  "local_mkcollection cfg name user s =
     (case path cfg name of
        Inl e \<Rightarrow> (Inl e, s)
      | Inr full_path \<Rightarrow>
          if is_locked s full_path = False
          then if osfs s full_path = None
               then with_lock (writer_key full_path)
                      (\<lambda>s1. try_finally
                         (\<lambda>s2. case os_mknod full_path s2 of
                                  (Inl e, s3) \<Rightarrow> (Inl e, s3)
                                | (Inr u, s3) \<Rightarrow> (Inr (PBool True), s3))
                         (\<lambda>s4. snd (unlock full_path user s4))
                         (snd (lock (max_file_lock_seconds cfg) full_path user s1)))
                      (io Exists full_path s)
               else (Inr (PBool False), io Exists full_path s)
          else (Inr (PBool False), s))"

text \<open>
  \<^verbatim>\<open>safe_read_chunk\<close>: for an existing path the first statement under the reader mutex
  is \<^verbatim>\<open>os.open(full_path, 'r')\<close>, which raises; it stands before the \<^verbatim>\<open>try\<close>, so
  nothing after it runs.
\<close>

definition local_safe_read_chunk ::
  "config \<Rightarrow> string \<Rightarrow> int \<Rightarrow> int \<Rightarrow> world \<Rightarrow> (exn + (bytes option \<times> int)) \<times> world" where
  "local_safe_read_chunk cfg name offset leng s =
     (case path cfg name of
        Inl e \<Rightarrow> (Inl e, s)
      | Inr full_path \<Rightarrow>
          if osfs s full_path \<noteq> None
          then with_lock (reader_key full_path)
                 (\<lambda>s1. (Inl (os_open_str_flags full_path ''r''), s1))
                 (io Exists full_path s)
          else (Inr (None, 0), io Exists full_path s))"

text \<open>
  \<^verbatim>\<open>download\<close> is a generator: the size is read once, then each step reads a chunk at
  the current offset, adds the number of bytes read to the offset and yields the
  triple. The loop is shared by both storage classes; \<open>read_chunk\<close> is the class's
  \<^verbatim>\<open>safe_read_chunk\<close> with name and chunk length fixed. The result is \<open>None\<close> when the
  loop runs forever; otherwise it holds the exception that ended the iteration, if
  any, the triples yielded and the last offset.
\<close>

type_synonym triple = "bytes option \<times> int \<times> int"

partial_function (option) download_loop ::
  "(int \<Rightarrow> world \<Rightarrow> (exn + (bytes option \<times> int)) \<times> world) \<Rightarrow> int \<Rightarrow> int \<Rightarrow> triple list
     \<Rightarrow> world \<Rightarrow> ((exn option \<times> triple list \<times> int) \<times> world) option" where
  "download_loop read_chunk fsize current_offset yielded s =
     (if current_offset < fsize
      then (case read_chunk current_offset s of
              (Inl e, s') \<Rightarrow> Some ((Some e, yielded, current_offset), s')
            | (Inr (buf, l), s') \<Rightarrow>
                download_loop read_chunk fsize (current_offset + l)
                  (yielded @ [(buf, l, current_offset + l)]) s')
      else Some ((None, yielded, current_offset), s))"

declare download_loop.simps [code]

definition local_download ::
  "config \<Rightarrow> string \<Rightarrow> int \<Rightarrow> world \<Rightarrow> ((exn option \<times> triple list \<times> int) \<times> world) option" where
  "local_download cfg name max_buf_length s =
     (case path cfg name of
        Inl e \<Rightarrow> Some ((Some e, [], 0), s)
      | Inr full_path \<Rightarrow>
          (case os_getsize (dir_size cfg) full_path s of
             (Inl e, s1) \<Rightarrow> Some ((Some e, [], 0), s1)
           | (Inr fsize, s1) \<Rightarrow>
               download_loop (\<lambda>off. local_safe_read_chunk cfg name off max_buf_length)
                 fsize 0 [] s1))"


section \<open>GlusterFSStorage (glusterfs_storage.py)\<close>

text \<open>\<^verbatim>\<open>exists(name)\<close>: \<^verbatim>\<open>self.__volume.exists(self.path(name))\<close>.\<close>

definition gluster_exists :: "config \<Rightarrow> world \<Rightarrow> string \<Rightarrow> exn + bool" where
  "gluster_exists cfg s name =
     (case path cfg name of Inl e \<Rightarrow> Inl e | Inr p \<Rightarrow> Inr (volume s p \<noteq> None))"

definition gluster_append ::
  "config \<Rightarrow> string \<Rightarrow> payload \<Rightarrow> string \<Rightarrow> world \<Rightarrow> (exn + bool) \<times> world" where
  "gluster_append cfg name content user s =
     (case path cfg name of
        Inl e \<Rightarrow> (Inl e, s)
      | Inr full_path \<Rightarrow>
          with_lock (reader_key full_path)
            (with_lock (writer_key full_path)
               (\<lambda>s1. if is_locked s1 full_path = False
                      then try_finally
                             (\<lambda>s2. case vol_append full_path (payload_bytes content) s2 of
                                      (Inl e, s3) \<Rightarrow> (Inl e, s3)
                                    | (Inr u, s3) \<Rightarrow> (Inr True, s3))
                             (\<lambda>s4. snd (unlock full_path user s4))
                             (snd (lock (max_file_lock_seconds cfg) full_path user s1))
                      else (Inr False, s1))) s)"

text \<open>
  \<^verbatim>\<open>mkcollection\<close>. The two mutexes and the creation are inside \<^verbatim>\<open>try\<close>;
  \<^verbatim>\<open>return (True, None)\<close> follows the \<^verbatim>\<open>with\<close> blocks, whether or not the inner
  \<^verbatim>\<open>if\<close> ran; \<^verbatim>\<open>except Exception\<close> returns the formatted traceback, of which the
  model keeps the name of the exception. The creation is the one-argument
  \<^verbatim>\<open>mknod\<close> call above.
\<close>

fun format_exc :: "exn \<Rightarrow> string" where
  "format_exc TypeError = ''TypeError''"
| "format_exc AttributeError = ''AttributeError''"
| "format_exc FileExistsError = ''FileExistsError''"
| "format_exc FileNotFoundError = ''FileNotFoundError''"
| "format_exc NotADirectoryError = ''NotADirectoryError''"
| "format_exc IsADirectoryError = ''IsADirectoryError''"
| "format_exc IOError = ''OSError''"
| "format_exc OSError = ''OSError''"
| "format_exc SuspiciousFileOperation = ''SuspiciousFileOperation''"

definition gluster_mkcollection ::
  "config \<Rightarrow> string \<Rightarrow> string \<Rightarrow> world \<Rightarrow> (exn + pyval) \<times> world" where
  "gluster_mkcollection cfg name user s =
     (case path cfg name of
        Inl e \<Rightarrow> (Inl e, s)
      | Inr full_path \<Rightarrow>
          if volume s full_path = None
          then (case with_lock (reader_key full_path)
                       (with_lock (writer_key full_path)
                          (\<lambda>s1. if is_locked s1 full_path = False
                                 then try_finally (vol_mknod full_path)
                                        (\<lambda>s4. snd (unlock full_path user s4))
                                        (snd (lock (max_file_lock_seconds cfg) full_path user s1))
                                 else (Inr (), s1)))
                       (io Exists full_path s) of
                  (Inl e, s') \<Rightarrow> (Inr (PTuple [PBool False, PStr (format_exc e)]), s')
                | (Inr u, s') \<Rightarrow> (Inr (PTuple [PBool True, PNone]), s'))
          else (Inr (PTuple [PBool False, PNone]), io Exists full_path s))"

text \<open>\<^verbatim>\<open>move\<close>: no named mutex; it copies only if the path has an entry; it returns nothing.\<close>

definition gluster_move ::
  "config \<Rightarrow> string \<Rightarrow> string \<Rightarrow> string \<Rightarrow> world \<Rightarrow> (exn + unit) \<times> world" where
  "gluster_move cfg name new_name user s =
     (case path cfg name of
        Inl e \<Rightarrow> (Inl e, s)
      | Inr full_path \<Rightarrow>
          (case path cfg new_name of
             Inl e \<Rightarrow> (Inl e, s)
           | Inr new_path \<Rightarrow>
               if is_locked s full_path
               then try_finally (vol_copy2 full_path new_path)
                      (\<lambda>s4. snd (unlock full_path user s4))
                      (snd (lock (max_file_lock_seconds cfg) full_path user s))
               else (Inr (), s)))"

definition gluster_safe_read_chunk ::
  "config \<Rightarrow> string \<Rightarrow> int \<Rightarrow> int \<Rightarrow> world \<Rightarrow> (exn + (bytes option \<times> int)) \<times> world" where
  "gluster_safe_read_chunk cfg name offset leng s =
     (case path cfg name of
        Inl e \<Rightarrow> (Inl e, s)
      | Inr full_path \<Rightarrow>
          if volume s full_path \<noteq> None
          then with_lock (reader_key full_path)
                 (\<lambda>s1. case vol_fopen_r full_path s1 of
                          (Inl e, s2) \<Rightarrow> (Inl e, s2)
                        | (Inr fd, s2) \<Rightarrow>
                            (case vol_getsize (dir_size cfg) full_path s2 of
                               (Inl e, s3) \<Rightarrow> (Inl e, s3)
                             | (Inr fsize, s3) \<Rightarrow>
                                 if offset < fsize
                                 then let rlength = fsize - offset;
                                          l = (if rlength < leng then rlength else leng)
                                      in (case file_lseek_without_how offset of
                                            Inl e \<Rightarrow> (Inl e, s3)
                                          | Inr pos \<Rightarrow>
                                              (Inr (Some (stream_read fd pos l), l),
                                               io Read full_path (io Seek full_path s3)))
                                 else (Inr (None, 0), s3)))
                 (io Exists full_path s)
          else (Inr (None, 0), io Exists full_path s))"

definition gluster_download ::
  "config \<Rightarrow> string \<Rightarrow> int \<Rightarrow> world \<Rightarrow> ((exn option \<times> triple list \<times> int) \<times> world) option" where
  "gluster_download cfg name max_buf_length s =
     (case path cfg name of
        Inl e \<Rightarrow> Some ((Some e, [], 0), s)
      | Inr full_path \<Rightarrow>
          (case vol_getsize (dir_size cfg) full_path s of
             (Inl e, s1) \<Rightarrow> Some ((Some e, [], 0), s1)
           | (Inr fsize, s1) \<Rightarrow>
               download_loop (\<lambda>off. gluster_safe_read_chunk cfg name off max_buf_length)
                 fsize 0 [] s1))"


section \<open>Example configuration and worlds\<close>

text \<open>
  A storage rooted at \<^verbatim>\<open>/srv/media\<close>: names are joined to the root, a name that starts
  with \<^verbatim>\<open>../\<close> is refused; an available name is the first of the name and its three
  numbered variants that does not exist; Django's \<^verbatim>\<open>_save\<close> writes the bytes of a
  file-like object under the name.
\<close>

definition media_path :: "string \<Rightarrow> exn + fpath" where
  "media_path name =
     (if take 3 name = ''../'' then Inl SuspiciousFileOperation
      else Inr (''/srv/media/'' @ name))"

definition media_available_name ::
  "(string \<Rightarrow> exn + bool) \<Rightarrow> string \<Rightarrow> nat option \<Rightarrow> exn + string" where
  "media_available_name ex name max_length =
     (case find (\<lambda>n. ex n = Inr False) [name, name @ ''_1'', name @ ''_2'', name @ ''_3''] of
        None \<Rightarrow> Inl SuspiciousFileOperation
      | Some n \<Rightarrow> Inr n)"

definition media_fs_save ::
  "string \<Rightarrow> content \<Rightarrow> (fpath \<rightharpoonup> node) \<Rightarrow> (exn + string) \<times> (fpath \<rightharpoonup> node)" where
  "media_fs_save name content fs =
     (case content of
        FileLike n data \<Rightarrow>
          (case fs_write (''/srv/media/'' @ name) data fs of
             Inl e \<Rightarrow> (Inl e, fs)
           | Inr fs' \<Rightarrow> (Inr name, fs'))
      | _ \<Rightarrow> (Inl AttributeError, fs))"

definition media_config :: config where
  "media_config =
     \<lparr>path = media_path, path_none = Inl TypeError, max_file_lock_seconds = 30,
      file_permissions_mode = None, get_available_name = media_available_name,
      fs_save = media_fs_save, dir_size = 4096\<rparr>"

definition media_tree :: "fpath \<rightharpoonup> node" where
  "media_tree = [''/'' \<mapsto> Dir, ''/srv'' \<mapsto> Dir, ''/srv/media'' \<mapsto> Dir]"

definition empty_world :: world where
  "empty_world = \<lparr>cache = Map.empty, osfs = Map.empty, volume = Map.empty, trace = []\<rparr>"

definition media_world :: world where
  "media_world = \<lparr>cache = Map.empty, osfs = media_tree, volume = media_tree, trace = []\<rparr>"

definition held_by :: "fpath \<Rightarrow> string \<Rightarrow> world" where
  "held_by p u = empty_world\<lparr>cache := [p \<mapsto> (u, Some 30)]\<rparr>"

definition greeting_world :: world where
  "greeting_world =
     media_world\<lparr>osfs := media_tree(''/srv/media/test_app.txt'' \<mapsto> File ''hello world!''),
                 volume := media_tree(''/srv/media/test_app.txt'' \<mapsto> File ''hello world!'')\<rparr>"

definition contested_world :: world where
  "contested_world =
     greeting_world\<lparr>cache := [''/srv/media/test_app.txt'' \<mapsto> (''you'', Some 30)]\<rparr>"

definition reserved_world :: world where
  "reserved_world = media_world\<lparr>cache := [''/srv/media/docs'' \<mapsto> (''bob'', Some 30)]\<rparr>"


section \<open>Frame facts of the primitives\<close>

lemmas scoped = with_lock_def try_finally_def acquire_def release_def io_def

lemmas worlds = media_config_def media_path_def media_world_def media_tree_def
  greeting_world_def contested_world_def reserved_world_def empty_world_def held_by_def

lemma cache_get_trace [simp]: "cache_get (s\<lparr>trace := t\<rparr>) k = cache_get s k"
  by (simp add: cache_get_def)

lemma cache_get_osfs [simp]: "cache_get (s\<lparr>osfs := f\<rparr>) k = cache_get s k"
  by (simp add: cache_get_def)

lemma cache_get_volume [simp]: "cache_get (s\<lparr>volume := f\<rparr>) k = cache_get s k"
  by (simp add: cache_get_def)

lemma is_locked_trace [simp]: "is_locked (s\<lparr>trace := t\<rparr>) p = is_locked s p"
  by (simp add: is_locked_def)

lemma is_locked_osfs [simp]: "is_locked (s\<lparr>osfs := f\<rparr>) p = is_locked s p"
  by (simp add: is_locked_def)

lemma is_locked_volume [simp]: "is_locked (s\<lparr>volume := f\<rparr>) p = is_locked s p"
  by (simp add: is_locked_def)


section \<open>The lock manager\<close>

lemma lock_granted_iff: "fst (fst (lock ttl p u s)) = truthy (cache_get s p)"
  by (simp add: lock_def)

lemma lock_free: "\<not> is_locked s p \<Longrightarrow> lock ttl p u s = ((False, None), s)"
  by (simp add: lock_def is_locked_def truthy_def)

lemma lock_held_overwrites:
  "cache_get s p = Some v \<Longrightarrow> v \<noteq> [] \<Longrightarrow>
   lock ttl p u s = ((True, Some u), cache_set p u (Some ttl) s)"
  by (simp add: lock_def truthy_def)

lemma unlock_free: "\<not> is_locked s p \<Longrightarrow> unlock p u s = (None, s)"
  by (simp add: unlock_def is_locked_def truthy_def)

text \<open>
  C1. The claim: \<open>lock(p, u)\<close> succeeds exactly when \<open>p\<close> is free, storing \<open>u\<close> and
  returning \<open>(true, u)\<close>; on a held path it returns \<open>(false, currentOwner)\<close> and leaves
  the owner alone. The code tests the entry the other way round: on a free path (the
  empty cache, as at the start of the repository's locking test) \<open>lock\<close> returns
  \<open>(False, None)\<close> and stores nothing, and on a path held by \<open>u1\<close> a call by \<open>u2\<close>
  returns \<open>(True, u2)\<close> and replaces the owner.
\<close>

theorem lock_polarity_inverted:
  "lock 30 ''/srv/media/test_app.txt'' ''me'' empty_world = ((False, None), empty_world)
   \<and> lock 30 ''/srv/media/test_app.txt'' ''u2'' (held_by ''/srv/media/test_app.txt'' ''u1'')
       = ((True, Some ''u2''), held_by ''/srv/media/test_app.txt'' ''u2'')"
  by (simp add: lock_def truthy_def cache_get_def cache_set_def empty_world_def held_by_def)

text \<open>
  C8, as stated: \<open>unlock(p, u1)\<close> clears the entry whenever the stored owner is \<open>u1\<close>.
  This fails for the empty string: \<^verbatim>\<open>if check_user and check_user == user\<close> is false
  for a stored \<^verbatim>\<open>''\<close>, so after \<open>unlock(p, '')\<close> the entry is still there.
\<close>

theorem unlock_empty_owner_not_cleared:
  "cache_get (held_by ''/p'' []) ''/p'' = Some []
   \<and> cache_get (snd (unlock ''/p'' [] (held_by ''/p'' []))) ''/p'' = Some []"
  by (simp add: unlock_def Let_def truthy_def cache_get_def held_by_def empty_world_def)

text \<open>
  C8, amended: for every path \<open>p\<close>, owners \<open>u1\<close>, \<open>u2\<close> and world \<open>s\<close>: \<open>unlock\<close> returns the
  owner stored before the call (or none); a call by \<open>u2\<close> while the stored owner is a
  different \<open>u1\<close> changes nothing; a call by \<open>u1\<close> while the stored owner is \<open>u1\<close> removes
  the entry of \<open>p\<close>, and only that entry, provided \<open>u1\<close> is not the empty string.
\<close>

theorem unlock_contract:
  "fst (unlock p u s) = cache_get s p
   \<and> (cache_get s p = Some u1 \<and> u1 \<noteq> u2 \<longrightarrow> snd (unlock p u2 s) = s)
   \<and> (cache_get s p = Some u1 \<and> u1 \<noteq> [] \<longrightarrow>
        snd (unlock p u1 s) = s\<lparr>cache := (cache s)(p := None)\<rparr>)"
  by (simp add: unlock_def Let_def truthy_def cache_delete_def)

text \<open>The contract at the inputs of the repository's locking test.\<close>

theorem unlock_contract_witness:
  "fst (unlock ''/p'' ''u2'' (held_by ''/p'' ''u1'')) = Some ''u1''
   \<and> snd (unlock ''/p'' ''u2'' (held_by ''/p'' ''u1'')) = held_by ''/p'' ''u1''
   \<and> snd (unlock ''/p'' ''u1'' (held_by ''/p'' ''u1'')) = empty_world"
proof -
  have g: "cache_get (held_by ''/p'' ''u1'') ''/p'' = Some ''u1''"
    by (simp add: cache_get_def held_by_def empty_world_def)
  have c: "(held_by ''/p'' ''u1'')\<lparr>cache := (cache (held_by ''/p'' ''u1''))(''/p'' := None)\<rparr>
           = empty_world"
    by (simp add: held_by_def empty_world_def)
  show ?thesis
    using unlock_contract [of "''/p''" "''u2''" "held_by ''/p'' ''u1''" "''u1''" "''u2''"]
      unlock_contract [of "''/p''" "''u1''" "held_by ''/p'' ''u1''" "''u1''" "''u2''"] g c
    by simp
qed


section \<open>LocalFileStorage.save\<close>

lemma local_save_locked_trace:
  "\<exists>xs. trace (snd (local_save_locked cfg n c ml s)) = trace s @ xs"
  by (auto simp: local_save_locked_def os_write_def io_def
      split: option.splits sum.splits content.splits prod.splits)

text \<open>
  C9, as stated: every call of \<open>LocalFileStorage.save\<close> whose content has the attribute
  \<open>chunks\<close> returns \<open>None\<close>. The name is resolved before the attribute is looked at,
  so the call raises when the name does not resolve: \<^verbatim>\<open>TypeError\<close> for no name at
  all (\<^verbatim>\<open>save(None, ContentFile(...))\<close>, the content having no name either),
  \<^verbatim>\<open>SuspiciousFileOperation\<close> for a name outside the base location.
\<close>

theorem local_save_unresolved_name_raises:
  "fst (local_save media_config None (DjangoFile None [''hello world!''] None) None media_world)
     = Inl TypeError
   \<and> fst (local_save media_config (Some ''../evil.txt'') (DjangoFile None [''hello world!''] None)
            None media_world) = Inl SuspiciousFileOperation"
  by (simp add: local_save_def save_name_def path_opt_def worlds)

text \<open>
  C9, amended. For every call of \<open>LocalFileStorage.save\<close> whose content has the
  attribute \<open>chunks\<close>: the world after the call is the world before it (no mutex taken,
  no backend call, no file and no cache entry changed); the call returns \<open>None\<close> when
  the name (the argument, or the name of the content when the argument is \<open>None\<close>)
  resolves, and raises the error of the path resolver when it does not. Content
  without \<open>chunks\<close>, and only such content, goes on to take the reader-keyed and then
  the writer-keyed mutex.
\<close>

theorem local_save_chunks_gate:
  "(has_chunks content \<longrightarrow> snd (local_save cfg name content ml s) = s)
   \<and> (has_chunks content \<and> save_name name content = Inr n \<and> path_opt cfg n = Inr p
        \<longrightarrow> local_save cfg name content ml s = (Inr PNone, s))
   \<and> (has_chunks content \<and> save_name name content = Inr n \<and> path_opt cfg n = Inl e
        \<longrightarrow> local_save cfg name content ml s = (Inl e, s))
   \<and> (\<not> has_chunks content \<and> save_name name content = Inr n \<and> path_opt cfg n = Inr p
        \<longrightarrow> take 2 (drop (length (trace s)) (trace (snd (local_save cfg name content ml s))))
              = [Acquire (reader_key p), Acquire (writer_key p)])"
proof (intro conjI impI)
  show "snd (local_save cfg name content ml s) = s" if "has_chunks content"
    using that by (simp add: local_save_def split: sum.splits)
  show "local_save cfg name content ml s = (Inr PNone, s)"
    if "has_chunks content \<and> save_name name content = Inr n \<and> path_opt cfg n = Inr p"
    using that by (simp add: local_save_def)
  show "local_save cfg name content ml s = (Inl e, s)"
    if "has_chunks content \<and> save_name name content = Inr n \<and> path_opt cfg n = Inl e"
    using that by (simp add: local_save_def)
  show "take 2 (drop (length (trace s)) (trace (snd (local_save cfg name content ml s))))
          = [Acquire (reader_key p), Acquire (writer_key p)]"
    if "\<not> has_chunks content \<and> save_name name content = Inr n \<and> path_opt cfg n = Inr p"
    using that
      local_save_locked_trace
        [of cfg n content ml "acquire (writer_key p) (acquire (reader_key p) s)"]
    by (auto simp: local_save_def with_lock_def acquire_def release_def split: prod.splits)
qed

text \<open>A Django file and a bytes object saved into the media root.\<close>

theorem local_save_chunks_gate_witness:
  "local_save media_config (Some ''test_app.txt'') (DjangoFile None [''hello world!''] None) None
      greeting_world = (Inr PNone, greeting_world)
   \<and> local_save media_config (Some ''../evil.txt'') (DjangoFile None [''hello world!''] None) None
      greeting_world = (Inl SuspiciousFileOperation, greeting_world)
   \<and> take 2 (trace (snd (local_save media_config (Some ''test_bytes.txt'')
                           (RawBytes ''hello world'') None greeting_world)))
       = [Acquire ''/srv/media/test_bytes.txt_reader'', Acquire ''/srv/media/test_bytes.txt_writer'']"
proof -
  have a: "has_chunks (DjangoFile None [''hello world!''] None)
     \<and> save_name (Some ''test_app.txt'') (DjangoFile None [''hello world!''] None)
         = Inr (Some ''test_app.txt'')
     \<and> path_opt media_config (Some ''test_app.txt'') = Inr ''/srv/media/test_app.txt''"
    by (simp add: save_name_def path_opt_def worlds)
  have b: "\<not> has_chunks (RawBytes ''hello world'')
     \<and> save_name (Some ''test_bytes.txt'') (RawBytes ''hello world'') = Inr (Some ''test_bytes.txt'')
     \<and> path_opt media_config (Some ''test_bytes.txt'') = Inr ''/srv/media/test_bytes.txt''"
    by (simp add: save_name_def path_opt_def worlds)
  have c: "save_name (Some ''../evil.txt'') (DjangoFile None [''hello world!''] None)
         = Inr (Some ''../evil.txt'')
     \<and> path_opt media_config (Some ''../evil.txt'') = Inl SuspiciousFileOperation"
    by (simp add: save_name_def path_opt_def worlds)
  have t: "trace greeting_world = []" by (simp add: worlds)
  show ?thesis
    using local_save_chunks_gate [where content = "DjangoFile None [''hello world!''] None"
        and cfg = media_config and name = "Some ''test_app.txt''" and ml = None
        and s = greeting_world and n = "Some ''test_app.txt''"
        and p = "''/srv/media/test_app.txt''"]
      local_save_chunks_gate [where content = "DjangoFile None [''hello world!''] None"
        and cfg = media_config and name = "Some ''../evil.txt''" and ml = None
        and s = greeting_world and n = "Some ''../evil.txt''"
        and e = SuspiciousFileOperation]
      local_save_chunks_gate [where content = "RawBytes ''hello world''"
        and cfg = media_config and name = "Some ''test_bytes.txt''" and ml = None
        and s = greeting_world and n = "Some ''test_bytes.txt''"
        and p = "''/srv/media/test_bytes.txt''"] a b c t
    by (simp add: reader_key_def writer_key_def)
qed

text \<open>
  C2. The claim: a save returns a success indication with the stored name, and the
  file is on the backend under that name. \<open>LocalFileStorage.save\<close> on the input of the
  repository's own test (\<^verbatim>\<open>save('test_app.txt', ContentFile('hello world!'))\<close>, after
  which the test expects the file to exist) returns \<open>None\<close> and leaves the world as it
  was; on a bytes object it writes the file and still returns \<open>None\<close>, because \<open>rval\<close>
  is assigned in the other branch only.
\<close>

theorem local_save_stores_nothing_or_returns_none:
  "local_save media_config (Some ''test_app.txt'') (DjangoFile None [''hello world!''] None) None
      media_world = (Inr PNone, media_world)
   \<and> fst (local_save media_config (Some ''test_bytes.txt'') (RawBytes ''hello world'') None
           media_world) = Inr PNone
   \<and> osfs (snd (local_save media_config (Some ''test_bytes.txt'') (RawBytes ''hello world'') None
            media_world)) ''/srv/media/test_bytes.txt'' = Some (File ''hello world'')"
  by (simp add: local_save_def save_name_def path_opt_def local_save_locked_def scoped worlds
      media_available_name_def local_exists_def os_write_def fs_write_def parent_error_def
      dirname_def)


section \<open>append\<close>

text \<open>
  \<open>GlusterFSStorage.append\<close> while the path has an entry: it returns \<open>False\<close>, takes and
  releases the two mutexes and changes nothing else.
\<close>

lemma gluster_append_refused:
  assumes "path cfg name = Inr p" "is_locked s p"
  shows "gluster_append cfg name content u s =
    (Inr False, s\<lparr>trace := trace s @ [Acquire (reader_key p), Acquire (writer_key p),
                                          Release (writer_key p), Release (reader_key p)]\<rparr>)"
  using assms by (simp add: gluster_append_def scoped)

text \<open>
  \<open>LocalFileStorage.append\<close> while another identity holds the entry: the condition
  \<^verbatim>\<open>cache.get(full_path) is not user\<close> is true, so the call goes ahead; \<open>lock\<close> then
  replaces the owner, the bytes are appended, and \<open>unlock\<close> deletes the entry.
\<close>

lemma local_append_foreign_lock:
  assumes "path cfg name = Inr p" "cache_get s p = Some v" "v \<noteq> u" "v \<noteq> []" "u \<noteq> []"
    "osfs s p = Some (File old)"
  shows "fst (local_append cfg same name content u s) = Inr True
    \<and> osfs (snd (local_append cfg same name content u s)) p
        = Some (File (old @ payload_bytes content))
    \<and> cache_get (snd (local_append cfg same name content u s)) p = None"
  using assms
  by (auto simp: local_append_def scoped is_not_object_def os_append_def fs_append_def
      lock_def unlock_def truthy_def cache_set_def cache_delete_def cache_get_def Let_def
      is_locked_def)

text \<open>
  C3. The claim: \<open>append(name, content, u)\<close> while another identity holds the lock
  returns false and leaves the bytes of the file as they were. In
  \<open>LocalFileStorage.append\<close>, with \<^verbatim>\<open>test_app.txt\<close> holding \<^verbatim>\<open>hello world!\<close> and locked
  by \<^verbatim>\<open>you\<close>, the call by \<^verbatim>\<open>me\<close> returns \<open>True\<close>, appends the bytes and removes the
  entry of \<^verbatim>\<open>you\<close>, whatever the cache returns as object.
\<close>

theorem local_append_ignores_foreign_lock:
  "\<forall>same. fst (local_append media_config same ''test_app.txt'' (Text '' it is me!'') ''me''
           contested_world) = Inr True
   \<and> osfs (snd (local_append media_config same ''test_app.txt'' (Text '' it is me!'') ''me''
           contested_world)) ''/srv/media/test_app.txt'' = Some (File ''hello world! it is me!'')
   \<and> cache_get (snd (local_append media_config same ''test_app.txt'' (Text '' it is me!'') ''me''
           contested_world)) ''/srv/media/test_app.txt'' = None"
  by (simp add: local_append_def scoped is_not_object_def os_append_def fs_append_def
      lock_def unlock_def truthy_def cache_set_def cache_delete_def cache_get_def Let_def
      is_locked_def worlds)


section \<open>The mutexes of the mutating calls\<close>

text \<open>
  C4. The claim: every mutating call takes the reader-keyed and then the writer-keyed
  mutex of the path before any backend call, and releases everything it took or set.
  \<open>LocalFileStorage.mkcollection\<close> on a fresh path asks the backend whether the path
  exists before it takes any mutex, and takes the writer-keyed mutex only.
  \<open>GlusterFSStorage.move\<close> takes no mutex at all: its whole trace is the copy; and
  called by \<^verbatim>\<open>me\<close> while \<^verbatim>\<open>you\<close> holds the path, it removes the entry of \<^verbatim>\<open>you\<close>.
\<close>

theorem mutating_calls_without_both_locks:
  "trace (snd (local_mkcollection media_config ''docs'' ''alice'' media_world))
     = [Backend Exists ''/srv/media/docs'', Acquire ''/srv/media/docs_writer'',
        Backend Mknod ''/srv/media/docs'', Release ''/srv/media/docs_writer'']
   \<and> trace (snd (gluster_move media_config ''test_app.txt'' ''copy.txt'' ''me'' contested_world))
     = [Backend Copy ''/srv/media/test_app.txt'']
   \<and> cache_get (snd (gluster_move media_config ''test_app.txt'' ''copy.txt'' ''me''
        contested_world)) ''/srv/media/test_app.txt'' = None"
  by (simp add: local_mkcollection_def gluster_move_def scoped is_locked_def lock_def unlock_def
      truthy_def cache_get_def cache_set_def cache_delete_def Let_def os_mknod_def fs_mknod_def
      vol_copy2_def fs_copy2_def fs_write_def parent_error_def dirname_def worlds
      reader_key_def writer_key_def)

section \<open>safe_read_chunk\<close>

text \<open>
  \<open>GlusterFSStorage.safe_read_chunk\<close> on an existing file: for an offset inside the file
  the one-argument \<^verbatim>\<open>lseek\<close> raises, inside \<^verbatim>\<open>try\<close>, so the stream is closed, the
  mutex released and the error propagated; for an offset at or past the end nothing
  is read and \<open>(None, 0)\<close> returned.
\<close>

lemma gluster_chunk_in_range:
  assumes "path cfg name = Inr p" "volume s p = Some (File bs)" "offset < int (length bs)"
  shows "gluster_safe_read_chunk cfg name offset leng s =
    (Inl TypeError,
     s\<lparr>trace := trace s @ [Backend Exists p, Acquire (reader_key p), Backend FOpen p,
                            Backend GetSize p, Release (reader_key p)]\<rparr>)"
  using assms
  by (simp add: gluster_safe_read_chunk_def scoped vol_fopen_r_def fs_fopen_r_def vol_getsize_def
      fs_getsize_def file_lseek_without_how_def Let_def)

lemma gluster_chunk_past_end:
  assumes "path cfg name = Inr p" "volume s p = Some (File bs)" "int (length bs) \<le> offset"
  shows "gluster_safe_read_chunk cfg name offset leng s =
    (Inr (None, 0),
     s\<lparr>trace := trace s @ [Backend Exists p, Acquire (reader_key p), Backend FOpen p,
                            Backend GetSize p, Release (reader_key p)]\<rparr>)"
  using assms
  by (simp add: gluster_safe_read_chunk_def scoped vol_fopen_r_def fs_fopen_r_def vol_getsize_def
      fs_getsize_def)

lemma gluster_chunk_missing:
  assumes "path cfg name = Inr p" "volume s p = None"
  shows "fst (gluster_safe_read_chunk cfg name offset leng s) = Inr (None, 0)"
  using assms by (simp add: gluster_safe_read_chunk_def)

text \<open>\<open>LocalFileStorage.safe_read_chunk\<close> raises for every existing path, whatever the offset.\<close>

lemma local_chunk_raises:
  assumes "path cfg name = Inr p" "osfs s p = Some n"
  shows "fst (local_safe_read_chunk cfg name offset leng s) = Inl TypeError"
  using assms by (simp add: local_safe_read_chunk_def scoped os_open_str_flags_def)

text \<open>
  C5. The claim: for an offset inside the file \<open>safeReadChunk\<close> returns the
  \<open>min(length, fileSize - offset)\<close> bytes that start there, and it never raises. On
  the 12 bytes \<^verbatim>\<open>hello world!\<close>, at offset 6 with length 4, both storage classes
  raise \<^verbatim>\<open>TypeError\<close> instead of returning \<^verbatim>\<open>worl\<close>: \<open>GlusterFSStorage\<close> at
  \<^verbatim>\<open>fd.lseek(offset)\<close>, \<open>LocalFileStorage\<close> at \<^verbatim>\<open>os.open(full_path, 'r')\<close>.
\<close>

theorem safe_read_chunk_in_range_raises:
  "fst (gluster_safe_read_chunk media_config ''test_app.txt'' 6 4 greeting_world) = Inl TypeError
   \<and> fst (local_safe_read_chunk media_config ''test_app.txt'' 6 4 greeting_world) = Inl TypeError
   \<and> volume greeting_world ''/srv/media/test_app.txt'' = Some (File ''hello world!'')
   \<and> osfs greeting_world ''/srv/media/test_app.txt'' = Some (File ''hello world!'')"
  by (simp add: gluster_safe_read_chunk_def local_safe_read_chunk_def scoped vol_fopen_r_def
      fs_fopen_r_def vol_getsize_def fs_getsize_def file_lseek_without_how_def
      os_open_str_flags_def Let_def worlds)


section \<open>download\<close>

text \<open>
  Both generators end at their first step on every non-empty file, with the error of
  their \<open>safe_read_chunk\<close>; on an empty file \<open>GlusterFSStorage.download\<close> yields nothing
  and ends.
\<close>

lemma gluster_download_raises:
  assumes "path cfg name = Inr p" "volume s p = Some (File bs)" "bs \<noteq> []"
  shows "map_option fst (gluster_download cfg name c s) = Some (Some TypeError, [], 0)"
proof -
  have v: "volume (io GetSize p s) p = Some (File bs)" using assms(2) by (simp add: io_def)
  have l: "0 < int (length bs)" using assms(3) by simp
  show ?thesis
    using assms(1,2) l gluster_chunk_in_range [OF assms(1) v l, of c]
    by (simp add: gluster_download_def vol_getsize_def fs_getsize_def download_loop.simps)
qed

lemma download_empty_file:
  assumes "path cfg name = Inr p" "volume s p = Some (File [])"
  shows "map_option fst (gluster_download cfg name c s) = Some (None, [], 0)"
  using assms
  by (simp add: gluster_download_def vol_getsize_def fs_getsize_def download_loop.simps)

lemma local_download_raises:
  assumes "path cfg name = Inr p" "osfs s p = Some (File bs)" "bs \<noteq> []"
  shows "map_option fst (local_download cfg name c s) = Some (Some TypeError, [], 0)"
  using assms
  by (simp add: local_download_def os_getsize_def fs_getsize_def download_loop.simps
      local_safe_read_chunk_def scoped os_open_str_flags_def)

text \<open>
  C6. The claim: iterating \<open>download(name, c)\<close> yields the bytes of the file in chunks
  and ends at the size of the file. \<open>LocalFileStorage.download\<close> on the 12-byte file with
  chunk length 4 yields nothing: its first step calls \<open>safe_read_chunk\<close>, whose
  \<^verbatim>\<open>os.open(full_path, 'r')\<close> raises \<^verbatim>\<open>TypeError\<close>.
\<close>

theorem local_download_raises_type_error:
  "map_option fst (local_download media_config ''test_app.txt'' 4 greeting_world)
     = Some (Some TypeError, [], 0)"
  by (simp add: local_download_def os_getsize_def fs_getsize_def download_loop.simps
      local_safe_read_chunk_def scoped os_open_str_flags_def worlds)


section \<open>mkcollection\<close>

text \<open>
  \<open>GlusterFSStorage.mkcollection\<close> on an absent path without entry: the one-argument
  \<^verbatim>\<open>mknod\<close> raises, \<^verbatim>\<open>except Exception\<close> captures it, and the call returns
  \<open>False\<close> with the traceback; the volume is as before.
\<close>

lemma gluster_mkcollection_unlocked:
  assumes "path cfg name = Inr p" "volume s p = None" "\<not> is_locked s p"
  shows "gluster_mkcollection cfg name u s =
    (Inr (PTuple [PBool False, PStr ''TypeError'']),
     s\<lparr>trace := trace s @ [Backend Exists p, Acquire (reader_key p), Acquire (writer_key p),
                            Release (writer_key p), Release (reader_key p)]\<rparr>)"
  using assms
  by (simp add: gluster_mkcollection_def scoped vol_mknod_def lock_free unlock_free)

lemma gluster_mkcollection_exists:
  assumes "path cfg name = Inr p" "volume s p = Some n"
  shows "gluster_mkcollection cfg name u s =
    (Inr (PTuple [PBool False, PNone]), s\<lparr>trace := trace s @ [Backend Exists p]\<rparr>)"
  using assms by (simp add: gluster_mkcollection_def scoped)

lemma gluster_mkcollection_result_shape:
  assumes "path cfg name = Inr p"
  shows "\<exists>b d. fst (gluster_mkcollection cfg name u s) = Inr (PTuple [PBool b, d])
           \<and> (b \<longrightarrow> d = PNone)"
  using assms
  by (auto simp: gluster_mkcollection_def scoped vol_mknod_def split: prod.splits sum.splits)

lemma local_mkcollection_fresh:
  assumes "path cfg name = Inr p" "osfs s p = None" "\<not> is_locked s p"
    "osfs s (dirname p) = Some Dir"
  shows "local_mkcollection cfg name u s =
    (Inr (PBool True),
     s\<lparr>osfs := (osfs s)(p \<mapsto> File []),
       trace := trace s @ [Backend Exists p, Acquire (writer_key p),
                            Backend Mknod p, Release (writer_key p)]\<rparr>)"
  using assms
  by (simp add: local_mkcollection_def scoped os_mknod_def fs_mknod_def parent_error_def
      lock_free unlock_free)

lemma local_mkcollection_exists:
  assumes "path cfg name = Inr p" "osfs s p = Some n"
  shows "fst (local_mkcollection cfg name u s) = Inr (PBool False)"
  using assms by (simp add: local_mkcollection_def scoped)

text \<open>
  C7, as stated: \<open>mkcollection\<close> on a fresh path returns \<open>(true, none)\<close>.
  \<open>LocalFileStorage.mkcollection\<close> returns the boolean \<open>True\<close>, as its own documentation
  says (\<^verbatim>\<open>:rtype: boolean\<close>), not a pair.
\<close>

theorem local_mkcollection_returns_bool:
  "fst (local_mkcollection media_config ''docs'' ''alice'' media_world) = Inr (PBool True)
   \<and> fst (local_mkcollection media_config ''docs'' ''alice'' media_world)
       \<noteq> Inr (PTuple [PBool True, PNone])"
  by (simp add: local_mkcollection_def scoped is_locked_def lock_def unlock_def
      truthy_def cache_get_def Let_def os_mknod_def fs_mknod_def parent_error_def dirname_def worlds)

text \<open>
  C7, amended. \<open>GlusterFSStorage.mkcollection\<close>, for a name that resolves: on an
  existing path it returns \<open>(False, None)\<close> and leaves the volume alone; when the
  creation raises \<open>e\<close> it returns \<open>False\<close> with the detail of \<open>e\<close>; it never lets an
  error of the creation out, its result being always a pair of a flag and a detail,
  with no detail when the flag is true. \<open>LocalFileStorage.mkcollection\<close> returns plain
  booleans: \<open>True\<close> on a fresh path (absent, without entry, parent directory present),
  with the empty marker created, \<open>False\<close> on the second call on the resulting world,
  and \<open>False\<close> on an existing path. (What the first call of \<open>GlusterFSStorage\<close> on a
  fresh path returns, and what \<open>LocalFileStorage\<close> does when the creation fails, is
  not part of the amended claim.)
\<close>

theorem mkcollection_results:
  "(path cfg name = Inr p \<and> volume s p \<noteq> None
      \<longrightarrow> fst (gluster_mkcollection cfg name u s) = Inr (PTuple [PBool False, PNone])
        \<and> volume (snd (gluster_mkcollection cfg name u s)) = volume s)
   \<and> (path cfg name = Inr p \<and> volume s p = None \<and> \<not> is_locked s p
        \<and> fst (vol_mknod p w) = Inl e
      \<longrightarrow> fst (gluster_mkcollection cfg name u s)
            = Inr (PTuple [PBool False, PStr (format_exc e)]))
   \<and> (path cfg name = Inr p
      \<longrightarrow> (\<exists>b d. fst (gluster_mkcollection cfg name u s) = Inr (PTuple [PBool b, d])
                  \<and> (b \<longrightarrow> d = PNone)))
   \<and> (path cfg name = Inr p \<and> osfs s p = None \<and> \<not> is_locked s p \<and> osfs s (dirname p) = Some Dir
      \<longrightarrow> fst (local_mkcollection cfg name u s) = Inr (PBool True)
        \<and> osfs (snd (local_mkcollection cfg name u s)) p = Some (File [])
        \<and> fst (local_mkcollection cfg name u (snd (local_mkcollection cfg name u s)))
            = Inr (PBool False))
   \<and> (path cfg name = Inr p \<and> osfs s p \<noteq> None
      \<longrightarrow> fst (local_mkcollection cfg name u s) = Inr (PBool False))"
proof -
  have g2: "fst (gluster_mkcollection cfg name u s) = Inr (PTuple [PBool False, PNone])
        \<and> volume (snd (gluster_mkcollection cfg name u s)) = volume s"
    if "path cfg name = Inr p" "volume s p \<noteq> None"
    using that gluster_mkcollection_exists [of cfg name p s _ u] by auto
  have l1: "fst (local_mkcollection cfg name u s) = Inr (PBool True)
        \<and> osfs (snd (local_mkcollection cfg name u s)) p = Some (File [])
        \<and> fst (local_mkcollection cfg name u (snd (local_mkcollection cfg name u s)))
            = Inr (PBool False)"
    if a: "path cfg name = Inr p" "osfs s p = None" "\<not> is_locked s p"
      "osfs s (dirname p) = Some Dir"
  proof -
    note f = local_mkcollection_fresh [OF a, of u]
    have "osfs (snd (local_mkcollection cfg name u s)) p = Some (File [])"
      by (simp add: f)
    from local_mkcollection_exists [OF a(1) this, of u] f show ?thesis
      by simp
  qed
  have l2: "fst (local_mkcollection cfg name u s) = Inr (PBool False)"
    if "path cfg name = Inr p" "osfs s p \<noteq> None"
    using that local_mkcollection_exists [of cfg name p s _ u] by auto
  have g3: "fst (gluster_mkcollection cfg name u s)
            = Inr (PTuple [PBool False, PStr (format_exc e)])"
    if "path cfg name = Inr p" "volume s p = None" "\<not> is_locked s p"
      "fst (vol_mknod p w) = Inl e"
    using that gluster_mkcollection_unlocked [of cfg name p s u]
    by (simp add: vol_mknod_def)
  show ?thesis
    using g2 g3 l1 l2 gluster_mkcollection_result_shape [of cfg name p u s]
    by blast
qed

text \<open>
  Both storage classes on the existing \<^verbatim>\<open>test_app.txt\<close>, the captured error of
  \<open>GlusterFSStorage\<close> on \<^verbatim>\<open>docs\<close>, and the first and second call of
  \<open>LocalFileStorage\<close> on \<^verbatim>\<open>docs\<close>.
\<close>

theorem mkcollection_results_witness:
  "fst (gluster_mkcollection media_config ''test_app.txt'' ''alice'' greeting_world)
     = Inr (PTuple [PBool False, PNone])
   \<and> fst (gluster_mkcollection media_config ''docs'' ''alice'' greeting_world)
     = Inr (PTuple [PBool False, PStr ''TypeError''])
   \<and> volume (snd (gluster_mkcollection media_config ''test_app.txt'' ''alice'' greeting_world))
     = volume greeting_world
   \<and> fst (local_mkcollection media_config ''docs'' ''alice'' greeting_world) = Inr (PBool True)
   \<and> fst (local_mkcollection media_config ''docs'' ''alice''
            (snd (local_mkcollection media_config ''docs'' ''alice'' greeting_world)))
     = Inr (PBool False)
   \<and> fst (local_mkcollection media_config ''test_app.txt'' ''alice'' greeting_world)
     = Inr (PBool False)"
proof -
  have p: "path media_config ''docs'' = Inr ''/srv/media/docs''"
    "path media_config ''test_app.txt'' = Inr ''/srv/media/test_app.txt''"
    by (simp_all add: worlds)
  have f: "osfs greeting_world ''/srv/media/docs'' = None"
    "volume greeting_world ''/srv/media/docs'' = None"
    "fst (vol_mknod ''/srv/media/docs'' greeting_world) = Inl TypeError"
    "\<not> is_locked greeting_world ''/srv/media/docs''"
    "osfs greeting_world (dirname ''/srv/media/docs'') = Some Dir"
    by (simp_all add: worlds is_locked_def cache_get_def dirname_def vol_mknod_def)
  have e: "volume greeting_world ''/srv/media/test_app.txt'' \<noteq> None"
    "osfs greeting_world ''/srv/media/test_app.txt'' \<noteq> None"
    by (simp_all add: worlds)
  show ?thesis
    using mkcollection_results [where cfg = media_config and name = "''docs''"
        and p = "''/srv/media/docs''" and s = greeting_world and u = "''alice''"
        and w = greeting_world and e = TypeError]
      mkcollection_results [where cfg = media_config and name = "''test_app.txt''"
        and p = "''/srv/media/test_app.txt''" and s = greeting_world and u = "''alice''"]
      p f e
    by simp
qed

text \<open>
  C10. For every name that resolves to a path \<open>p\<close> absent from the volume, while the
  lock table has an entry for \<open>p\<close>: \<open>GlusterFSStorage.mkcollection\<close> returns
  \<open>(True, None)\<close>, and the world after the call differs from the world before only in
  the trace, which holds the existence test and the two mutexes taken and released,
  with no creation in between: no node comes into existence.
\<close>

theorem gluster_mkcollection_locked_reports_success:
  "path cfg name = Inr p \<Longrightarrow> volume s p = None \<Longrightarrow> is_locked s p \<Longrightarrow>
   gluster_mkcollection cfg name u s =
     (Inr (PTuple [PBool True, PNone]),
      s\<lparr>trace := trace s @ [Backend Exists p, Acquire (reader_key p), Acquire (writer_key p),
                             Release (writer_key p), Release (reader_key p)]\<rparr>)"
  by (simp add: gluster_mkcollection_def scoped)

theorem gluster_mkcollection_locked_reports_success_witness:
  "fst (gluster_mkcollection media_config ''docs'' ''alice'' reserved_world)
     = Inr (PTuple [PBool True, PNone])
   \<and> volume (snd (gluster_mkcollection media_config ''docs'' ''alice'' reserved_world))
       ''/srv/media/docs'' = None
   \<and> cache_get (snd (gluster_mkcollection media_config ''docs'' ''alice'' reserved_world))
       ''/srv/media/docs'' = Some ''bob''"
proof -
  have p: "path media_config ''docs'' = Inr ''/srv/media/docs''" by (simp add: worlds)
  have v: "volume reserved_world ''/srv/media/docs'' = None" by (simp add: worlds)
  have l: "is_locked reserved_world ''/srv/media/docs''"
    by (simp add: is_locked_def cache_get_def worlds)
  have c: "cache_get reserved_world ''/srv/media/docs'' = Some ''bob''"
    by (simp add: cache_get_def worlds)
  show ?thesis
    using gluster_mkcollection_locked_reports_success [OF p v l, of "''alice''"] v c
    by simp
qed

end
